theory Spec2Isabelle
  imports Complex_Main "HOL-Library.Word"
begin

section \<open>Tweened transforms (mixer/frame_mixer_device.cpp)\<close>

text \<open>
  The class template \<open>tweened_transform<T>\<close> holds a source value, a destination value, a
  duration and an elapsed time in ticks, and an easing function. The C++ member names end
  in an underscore (\<open>source_\<close>, \<open>time_\<close>, ...); a name cannot end that way here, so the
  fields carry the prefix \<open>tw_\<close> instead.

  The C++ \<open>int\<close> fields are mathematical integers, and \<open>time_ + num\<close> is the mathematical
  sum. It is the sum that the 32-bit addition of the code computes as long as it does not
  exceed 2147483647; beyond that the addition of the code overflows. The statements below
  about the elapsed time after a tick therefore assume an elapsed time of at most
  2147483645 before it (\<open>num\<close> is 1 or 2).

  The \<open>double\<close> arithmetic of the easing is modelled by real arithmetic. The two agree
  up to rounding, and exactly at time 0, where a linear easing is its source.
\<close>

type_synonym 'a tweener_t = "real \<Rightarrow> 'a \<Rightarrow> 'a \<Rightarrow> real \<Rightarrow> 'a"

text \<open>
  Modelled from the spec: the easing table of common/utility/tweener.h is not among the
  sources. An easing has the signature (t, from, to, duration) and the linear one is the
  straight line that is \<open>from\<close> at \<open>t = 0\<close> and \<open>to\<close> at \<open>t = duration\<close>.
\<close>

definition linear_easing :: "real tweener_t" where
  "linear_easing t src dst duration = src + (dst - src) * t / duration"

text \<open>
  Modelled from the spec: the free function \<open>tween (time, source, dest, duration, tweener)\<close>
  of the transform headers is not among the sources. It evaluates the easing on a
  transform value: easing (e, source, dest, duration).
\<close>

definition tween :: "real \<Rightarrow> 'a \<Rightarrow> 'a \<Rightarrow> real \<Rightarrow> 'a tweener_t \<Rightarrow> 'a" where
  "tween time source dest duration tweener = tweener time source dest duration"

record 'a tweened_transform =
  tw_source :: 'a
  tw_dest :: 'a
  tw_duration :: int
  tw_time :: int
  tw_tweener :: "'a tweener_t"

text \<open>
  What a transform type brings with it: its default-constructed value \<open>T()\<close>, its
  \<open>operator*\<close> and the easing that \<open>get_tweener (L"linear")\<close> returns for it. The
  transform headers are not among the sources, so these are parameters of the model.
\<close>

record 'a transform_ops =
  ident :: 'a
  mul :: "'a \<Rightarrow> 'a \<Rightarrow> 'a"
  linear_tweener :: "'a tweener_t"

text \<open>
  Modelled from the spec: a transform with a single real component (an opacity or a
  volume), whose identity is 1 and whose composition is multiplication. It is the instance
  at which the definitions are evaluated on concrete inputs.
\<close>

definition scalar_ops :: "real transform_ops" where
  "scalar_ops = \<lparr>ident = 1, mul = (*), linear_tweener = linear_easing\<rparr>"

text \<open>The default constructor: \<open>duration_ (0)\<close>, \<open>time_ (0)\<close>, linear easing.\<close>

definition default_tweened_transform :: "'a transform_ops \<Rightarrow> 'a tweened_transform" where
  "default_tweened_transform ops =
     \<lparr>tw_source = ident ops, tw_dest = ident ops, tw_duration = 0, tw_time = 0,
      tw_tweener = linear_tweener ops\<rparr>"

text \<open>
  The four-argument constructor. Its last argument is the easing already looked up by
  \<open>get_tweener\<close> (the lookup by name is not among the sources).
\<close>

definition new_tweened_transform ::
  "'a \<Rightarrow> 'a \<Rightarrow> int \<Rightarrow> 'a tweener_t \<Rightarrow> 'a tweened_transform" where
  "new_tweened_transform source dest duration tweener =
     \<lparr>tw_source = source, tw_dest = dest, tw_duration = duration, tw_time = 0,
      tw_tweener = tweener\<rparr>"

definition fetch :: "'a tweened_transform \<Rightarrow> 'a" where
  "fetch tw =
     tween (real_of_int (tw_time tw)) (tw_source tw) (tw_dest tw)
       (real_of_int (tw_duration tw) + 0.000001) (tw_tweener tw)"

definition fetch_and_tick :: "int \<Rightarrow> 'a tweened_transform \<Rightarrow> 'a \<times> 'a tweened_transform" where
  "fetch_and_tick num tw =
     (let tw' = tw\<lparr>tw_time := min (tw_time tw + num) (tw_duration tw)\<rparr>
      in (fetch tw', tw'))"

section \<open>The frame mixer (mixer/frame_mixer_device.cpp)\<close>

datatype video_mode = progressive | lower | upper

text \<open>
  A frame as the mixer sees it: it is the shared \<open>basic_frame::empty ()\<close> object, the shared
  \<open>basic_frame::eof ()\<close> object, or some other frame (told apart by a number). The mixer
  wraps a frame into a child frame that carries the transform it has computed, and may
  interlace two children.
\<close>

datatype basic_frame = EMPTY | EOF | Frame nat

datatype 't child_frame =
    Child basic_frame 't
  | Interlace "'t child_frame" "'t child_frame" video_mode

text \<open>
  The members of \<open>frame_mixer_device::implementation\<close> that mixing reads and writes. The two
  mixers are sinks: each is the list of the frames it has accepted, oldest first.
\<close>

record ('i, 'a) mixer =
  format_desc_mode :: video_mode
  image_mixer :: "'i child_frame list"
  audio_mixer :: "'a child_frame list"
  image_transforms :: "int \<rightharpoonup> 'i tweened_transform"
  audio_transforms :: "int \<rightharpoonup> 'a tweened_transform"
  root_image_transform :: "'i tweened_transform"
  root_audio_transform :: "'a tweened_transform"

definition mixer_init :: "'i transform_ops \<Rightarrow> 'a transform_ops \<Rightarrow> video_mode \<Rightarrow> ('i, 'a) mixer" where
  "mixer_init iops aops mode =
     \<lparr>format_desc_mode = mode, image_mixer = [], audio_mixer = [],
      image_transforms = Map.empty, audio_transforms = Map.empty,
      root_image_transform = default_tweened_transform iops,
      root_audio_transform = default_tweened_transform aops\<rparr>"

text \<open>
  \<open>std::unordered_map::operator[]\<close>: a missing key is inserted with a default-constructed
  tween, which is then the entry.
\<close>

definition at_index ::
  "'t transform_ops \<Rightarrow> (int \<rightharpoonup> 't tweened_transform) \<Rightarrow> int \<Rightarrow> 't tweened_transform" where
  "at_index ops m index =
     (case m index of None \<Rightarrow> default_tweened_transform ops | Some tw \<Rightarrow> tw)"

text \<open>
  The expression
  \<open>root_image_transform_.fetch_and_tick (num) * image_transforms_ [index].fetch_and_tick (num)\<close>
  with its effect on the two tweens, and its audio twin.
\<close>

definition tick_image :: "'i transform_ops \<Rightarrow> int \<Rightarrow> int \<Rightarrow> ('i, 'a) mixer \<Rightarrow> 'i \<times> ('i, 'a) mixer" where
  "tick_image ops index num st =
     (let (r, root') = fetch_and_tick num (root_image_transform st);
          (l, layer') = fetch_and_tick num (at_index ops (image_transforms st) index)
      in (mul ops r l,
          st\<lparr>root_image_transform := root',
             image_transforms := (image_transforms st)(index \<mapsto> layer')\<rparr>))"

definition tick_audio :: "'a transform_ops \<Rightarrow> int \<Rightarrow> int \<Rightarrow> ('i, 'a) mixer \<Rightarrow> 'a \<times> ('i, 'a) mixer" where
  "tick_audio ops index num st =
     (let (r, root') = fetch_and_tick num (root_audio_transform st);
          (l, layer') = fetch_and_tick num (at_index ops (audio_transforms st) index)
      in (mul ops r l,
          st\<lparr>root_audio_transform := root',
             audio_transforms := (audio_transforms st)(index \<mapsto> layer')\<rparr>))"

text \<open>
  The body of the loop of \<open>mix_image\<close> for one frame. \<open>get_layer_index\<close> belongs to
  basic_frame.h, which is not among the sources; it is the parameter \<open>layer_of\<close>.
\<close>

definition mix_image_frame ::
  "'i transform_ops \<Rightarrow> (basic_frame \<Rightarrow> int) \<Rightarrow> basic_frame \<Rightarrow> ('i, 'a) mixer \<Rightarrow> ('i, 'a) mixer" where
  "mix_image_frame ops layer_of frame st =
     (if format_desc_mode st \<noteq> progressive then
        (let (t1, st1) = tick_image ops (layer_of frame) 1 st;
             (t2, st2) = tick_image ops (layer_of frame) 1 st1;
             frame1 = Child frame t1;
             frame2 = Child frame t2
         in if t1 \<noteq> t2
            then st2\<lparr>image_mixer :=
                      image_mixer st2 @ [Interlace frame1 frame2 (format_desc_mode st)]\<rparr>
            else st2\<lparr>image_mixer := image_mixer st2 @ [frame2]\<rparr>)
      else
        (let (t1, st1) = tick_image ops (layer_of frame) 1 st
         in st1\<lparr>image_mixer := image_mixer st1 @ [Child frame t1]\<rparr>))"

definition mix_image ::
  "'i transform_ops \<Rightarrow> (basic_frame \<Rightarrow> int) \<Rightarrow> basic_frame list \<Rightarrow> ('i, 'a) mixer \<Rightarrow> ('i, 'a) mixer" where
  "mix_image ops layer_of frames st =
     (let frames1 = removeAll EMPTY frames;
          frames2 = removeAll EOF frames1
      in fold (mix_image_frame ops layer_of) frames2 st)"

definition mix_audio_frame ::
  "'a transform_ops \<Rightarrow> (basic_frame \<Rightarrow> int) \<Rightarrow> basic_frame \<Rightarrow> ('i, 'a) mixer \<Rightarrow> ('i, 'a) mixer" where
  "mix_audio_frame ops layer_of frame st =
     (let num = (if format_desc_mode st = progressive then 1 else 2);
          (t1, st1) = tick_audio ops (layer_of frame) num st
      in st1\<lparr>audio_mixer := audio_mixer st1 @ [Child frame t1]\<rparr>)"

definition mix_audio ::
  "'a transform_ops \<Rightarrow> (basic_frame \<Rightarrow> int) \<Rightarrow> basic_frame list \<Rightarrow> ('i, 'a) mixer \<Rightarrow> ('i, 'a) mixer" where
  "mix_audio ops layer_of frames st = fold (mix_audio_frame ops layer_of) frames st"

text \<open>
  The task that \<open>send\<close> hands to the executor: the image pass and then the audio pass, both
  on the frames as they were sent.
\<close>

definition send ::
  "'i transform_ops \<Rightarrow> 'a transform_ops \<Rightarrow> (basic_frame \<Rightarrow> int) \<Rightarrow> basic_frame list \<Rightarrow>
     ('i, 'a) mixer \<Rightarrow> ('i, 'a) mixer" where
  "send iops aops layer_of frames st =
     mix_audio aops layer_of frames (mix_image iops layer_of frames st)"

text \<open>The root-level set and apply operations, for the image and the audio transform.\<close>

definition set_image_transform ::
  "'i \<Rightarrow> int \<Rightarrow> 'i tweener_t \<Rightarrow> ('i, 'a) mixer \<Rightarrow> ('i, 'a) mixer" where
  "set_image_transform transform mix_duration tweener st =
     (let src = fetch (root_image_transform st);
          dst = transform
      in st\<lparr>root_image_transform := new_tweened_transform src dst mix_duration tweener\<rparr>)"

definition apply_image_transform ::
  "('i \<Rightarrow> 'i) \<Rightarrow> int \<Rightarrow> 'i tweener_t \<Rightarrow> ('i, 'a) mixer \<Rightarrow> ('i, 'a) mixer" where
  "apply_image_transform transform mix_duration tweener st =
     (let src = fetch (root_image_transform st);
          dst = transform src
      in st\<lparr>root_image_transform := new_tweened_transform src dst mix_duration tweener\<rparr>)"

definition set_audio_transform ::
  "'a \<Rightarrow> int \<Rightarrow> 'a tweener_t \<Rightarrow> ('i, 'a) mixer \<Rightarrow> ('i, 'a) mixer" where
  "set_audio_transform transform mix_duration tweener st =
     (let src = fetch (root_audio_transform st);
          dst = transform
      in st\<lparr>root_audio_transform := new_tweened_transform src dst mix_duration tweener\<rparr>)"

definition apply_audio_transform ::
  "('a \<Rightarrow> 'a) \<Rightarrow> int \<Rightarrow> 'a tweener_t \<Rightarrow> ('i, 'a) mixer \<Rightarrow> ('i, 'a) mixer" where
  "apply_audio_transform transform mix_duration tweener st =
     (let src = fetch (root_audio_transform st);
          dst = transform src
      in st\<lparr>root_audio_transform := new_tweened_transform src dst mix_duration tweener\<rparr>)"

section \<open>The demux pump (core/producer/ffmpeg/input.cpp)\<close>

datatype error = file_read_error | undefined_behaviour

text \<open>The one field of \<open>AVCodecContext\<close> that the pump touches: \<open>time_base\<close>, a rational.\<close>

record AVCodecContext =
  time_base_num :: int
  time_base_den :: int

text \<open>
  \<open>static_cast<int> (std::log10 (static_cast<float> (den)))\<close>. For \<open>den \<le> 0\<close> the logarithm
  is minus infinity or not a number and its conversion to \<open>int\<close> is undefined. For a
  positive \<open>den\<close> the exact value would be the number of decimal digits less one,
  \<open>ilog10\<close>. The code computes in \<open>float\<close>: the conversion rounds \<open>den\<close> to 24 significant
  bits and the logarithm is rounded to the nearest \<open>float\<close>, so just below a power of ten
  the logarithm rounds up to the next integer. For a 32-bit \<open>den\<close> that happens exactly on
  the three ranges of \<open>float_log10_rounds_up\<close>, where the result is one more than the
  digit count gives.
\<close>

fun ilog10 :: "nat \<Rightarrow> nat" where
  "ilog10 n = (if n < 10 then 0 else Suc (ilog10 (n div 10)))"

declare ilog10.simps [simp del]

definition float_log10_rounds_up :: "int \<Rightarrow> bool" where
  "float_log10_rounds_up den \<longleftrightarrow>
     (9999995 \<le> den \<and> den \<le> 9999999) \<or>
     (99999948 \<le> den \<and> den \<le> 99999999) \<or>
     (999998881 \<le> den \<and> den \<le> 999999999)"

definition log10_int :: "int \<Rightarrow> error + int" where
  "log10_int den =
     (if den \<le> 0 then Inl undefined_behaviour
      else if float_log10_rounds_up den then Inr (int (ilog10 (nat den)) + 1)
      else Inr (int (ilog10 (nat den))))"

text \<open>
  \<open>static_cast<int> (std::pow (10.0, e))\<close>: a power of ten for \<open>e \<ge> 0\<close>; for \<open>e < 0\<close> the
  power lies strictly between 0 and 1 and the conversion truncates it to 0.
\<close>

definition pow10_int :: "int \<Rightarrow> int" where
  "pow10_int e = (if 0 \<le> e then 10 ^ nat e else 0)"

text \<open>\<open>fix_time_base\<close>; the argument is a pointer, \<open>None\<close> when null.\<close>

definition fix_time_base :: "AVCodecContext option \<Rightarrow> error + AVCodecContext option" where
  "fix_time_base context =
     (case context of
        None \<Rightarrow> Inr None
      | Some c \<Rightarrow>
          if time_base_num c = 1 then
            (case log10_int (time_base_den c) of
               Inl e \<Rightarrow> Inl e
             | Inr l \<Rightarrow> Inr (Some (c\<lparr>time_base_num := pow10_int (l - 1)\<rparr>)))
          else Inr (Some c))"


type_synonym aligned_buffer = "8 word list"

text \<open>
  The state of \<open>input::implementation\<close>. The two concurrent queues are lists, front first.
  The executor is its running flag and the number of tasks handed to \<open>begin_invoke\<close>; the
  condition variable is the count of its \<open>notify_all\<close> calls; the diagnostic graph is
  the list of tags it was given; \<open>seek_calls\<close> records the arguments of every
  \<open>av_seek_frame\<close> call (stream index, timestamp, flags).
\<close>

record input =
  loop :: bool
  video_s_index :: int
  audio_s_index :: int
  video_packet_buffer :: "aligned_buffer list"
  audio_packet_buffer :: "aligned_buffer list"
  executor_is_running :: bool
  executor_tasks :: nat
  cond_notifications :: nat
  graph_tags :: "string list"
  seek_calls :: "(int \<times> int \<times> int) list"

text \<open>
  The two library functions that \<open>seek_frame\<close> calls, as parameters: \<open>av_rescale_q\<close> (the
  value, and the index of the stream whose time base is the target) and \<open>av_seek_frame\<close>
  (stream index, timestamp, flags), which returns a status code.
\<close>

record libav =
  av_rescale_q :: "int \<Rightarrow> int \<Rightarrow> int"
  av_seek_frame :: "int \<Rightarrow> int \<Rightarrow> int \<Rightarrow> int"

definition AV_TIME_BASE :: int where
  "AV_TIME_BASE = 1000000"

definition AVSEEK_FLAG_BACKWARD :: int where
  "AVSEEK_FLAG_BACKWARD = 1"

definition seek_frame :: "libav \<Rightarrow> int \<Rightarrow> int \<Rightarrow> input \<Rightarrow> bool \<times> input" where
  "seek_frame lib seek_target flags st =
     (let stream_index = max (video_s_index st) (audio_s_index st);
          seek_target1 = seek_target * AV_TIME_BASE;
          seek_target2 = (if stream_index \<ge> 0 then av_rescale_q lib seek_target1 stream_index
                          else seek_target1);
          result = (av_seek_frame lib stream_index seek_target2 flags \<ge> 0)
      in (result, st\<lparr>seek_calls := seek_calls st @ [(stream_index, seek_target2, flags)]\<rparr>))"

text \<open>
  One run of \<open>read_file\<close>. \<open>read_packet\<close> is the outcome of \<open>av_read_frame\<close>: \<open>None\<close> for a
  negative status, else the stream index and the payload of the packet. The wait on the
  condition variable that ends the function suspends the thread and changes no member.
\<close>

definition read_file :: "libav \<Rightarrow> (int \<times> aligned_buffer) option \<Rightarrow> input \<Rightarrow> input" where
  "read_file lib read_packet st =
     (let st1 =
        (case read_packet of
           Some (stream_index, packet) \<Rightarrow>
             if stream_index = video_s_index st
             then st\<lparr>video_packet_buffer := video_packet_buffer st @ [packet]\<rparr>
             else if stream_index = audio_s_index st
             then st\<lparr>audio_packet_buffer := audio_packet_buffer st @ [packet]\<rparr>
             else st
         | None \<Rightarrow>
             if \<not> loop st then st\<lparr>executor_is_running := False\<rparr>
             else
               (let (result, st') = seek_frame lib 0 AVSEEK_FLAG_BACKWARD st
                in if \<not> result then st'\<lparr>executor_is_running := False\<rparr>
                   else st'\<lparr>graph_tags := graph_tags st' @ [''seek'']\<rparr>))
      in st1\<lparr>executor_tasks := executor_tasks st1 + 1\<rparr>)"

text \<open>\<open>get_packet\<close> takes one of the two queues by reference; \<open>stream_kind\<close> says which.\<close>

datatype stream_kind = Video | Audio

definition get_packet :: "stream_kind \<Rightarrow> input \<Rightarrow> aligned_buffer \<times> input" where
  "get_packet kind st =
     (let st1 = st\<lparr>cond_notifications := cond_notifications st + 1\<rparr>
      in case kind of
           Video \<Rightarrow>
             (case video_packet_buffer st1 of
                [] \<Rightarrow> ([], st1)
              | packet # rest \<Rightarrow> (packet, st1\<lparr>video_packet_buffer := rest\<rparr>))
         | Audio \<Rightarrow>
             (case audio_packet_buffer st1 of
                [] \<Rightarrow> ([], st1)
              | packet # rest \<Rightarrow> (packet, st1\<lparr>audio_packet_buffer := rest\<rparr>)))"

definition get_video_packet :: "input \<Rightarrow> aligned_buffer \<times> input" where
  "get_video_packet st = get_packet Video st"

definition get_audio_packet :: "input \<Rightarrow> aligned_buffer \<times> input" where
  "get_audio_packet st = get_packet Audio st"

definition is_eof :: "input \<Rightarrow> bool" where
  "is_eof st \<longleftrightarrow>
     \<not> executor_is_running st \<and> video_packet_buffer st = [] \<and> audio_packet_buffer st = []"

section \<open>Notions used in the statements\<close>

text \<open>The frames that the image pass keeps: those that are neither \<open>EMPTY\<close> nor \<open>EOF\<close>.\<close>

definition surviving :: "basic_frame list \<Rightarrow> basic_frame list" where
  "surviving frames = filter (\<lambda>frame. frame \<noteq> EMPTY \<and> frame \<noteq> EOF) frames"

text \<open>
  The number of tween steps that one frame asks for: in the image pass one call of
  \<open>fetch_and_tick (1)\<close> when progressive and two otherwise, in the audio pass one call of
  \<open>fetch_and_tick (num)\<close> with \<open>num\<close> 1 or 2.
\<close>

definition ticks_per_frame :: "video_mode \<Rightarrow> int" where
  "ticks_per_frame mode = (if mode = progressive then 1 else 2)"

text \<open>A positive power of ten (1, 10, 100, ...), decided by counting digits.\<close>

definition power_of_ten :: "int \<Rightarrow> bool" where
  "power_of_ten den \<longleftrightarrow> 0 < den \<and> den = 10 ^ ilog10 (nat den)"

section \<open>Properties of the tweened transform\<close>

lemma fetch_default_scalar: "fetch (default_tweened_transform scalar_ops) = 1"
  by (simp add: fetch_def tween_def default_tweened_transform_def scalar_ops_def
      linear_easing_def)

text \<open>
  Claim C1, as the code has it. After \<open>set_image_transform (T, d, e)\<close> the value fetched
  once the elapsed time has been advanced by \<open>k\<close> is the easing \<open>e\<close> at the elapsed time
  (\<open>k\<close>, clamped to \<open>d\<close>), from the value the tween had when it was set, towards \<open>T\<close>, over
  the duration \<open>d + 0.000001\<close>. In particular the value fetched at elapsed time \<open>d\<close> is the
  easing at time \<open>d\<close> of a duration \<open>d + 0.000001\<close>: the easing is not evaluated at the end
  of the duration it is given, and nothing makes the value \<open>T\<close>. (The tween starts at
  elapsed time 0, so that advancing it by any \<open>int\<close> cannot overflow.)
\<close>

theorem set_then_fetch_at_elapsed:
  "fst (fetch_and_tick k (root_image_transform (set_image_transform T d e st))) =
     e (real_of_int (min k d)) (fetch (root_image_transform st)) T
       (real_of_int d + 0.000001)
   \<and> fst (fetch_and_tick d (root_image_transform (set_image_transform T d e st))) =
     e (real_of_int d) (fetch (root_image_transform st)) T (real_of_int d + 0.000001)"
  by (simp add: fetch_and_tick_def set_image_transform_def Let_def fetch_def tween_def
      new_tweened_transform_def)

text \<open>
  An instance: a fresh mixer (root opacity 1), set to opacity 0 over 10 ticks, with the
  linear easing in real arithmetic. Half way the opacity is \<open>5000001 / 10000001\<close>, and at
  the tenth tick it is \<open>1 / 10000001\<close>.
\<close>

theorem set_then_fetch_at_elapsed_witness:
  "fst (fetch_and_tick 5 (root_image_transform
        (set_image_transform 0 10 linear_easing
           (mixer_init scalar_ops scalar_ops progressive)))) =
      (5000001 / 10000001 :: real)
   \<and> fst (fetch_and_tick 10 (root_image_transform
        (set_image_transform 0 10 linear_easing
           (mixer_init scalar_ops scalar_ops progressive)))) =
      (1 / 10000001 :: real)"
  using set_then_fetch_at_elapsed
    [of 5 "0::real" 10 linear_easing "mixer_init scalar_ops scalar_ops progressive"]
  by (simp add: mixer_init_def fetch_default_scalar linear_easing_def)

text \<open>
  The claim C1 as it is written fails there: the fetch at elapsed time 10 of a tween set
  to 0 over 10 ticks is not 0.
\<close>

theorem set_then_fetch_at_duration_counterexample:
  "fst (fetch_and_tick 10 (root_image_transform
      (set_image_transform 0 10 linear_easing
         (mixer_init scalar_ops scalar_ops progressive))))
   \<noteq> (0::real)"
  by (simp add: fetch_and_tick_def set_image_transform_def Let_def fetch_def tween_def
      new_tweened_transform_def mixer_init_def default_tweened_transform_def scalar_ops_def
      linear_easing_def)

text \<open>
  A tween of duration 0 never leaves its source: the elapsed time is clamped to 0, and a
  linear easing at time 0 is the source whatever the duration it is given.
\<close>

lemma zero_duration_fetch:
  "fetch (new_tweened_transform v w 0 linear_easing) = v"
  "0 \<le> num \<Longrightarrow> fst (fetch_and_tick num (new_tweened_transform v w 0 linear_easing)) = v"
  by (simp_all add: fetch_and_tick_def Let_def fetch_def tween_def new_tweened_transform_def
      linear_easing_def min_def)

text \<open>
  Claim C3, evaluated on the code. On a fresh mixer the root opacity is 1;
  \<open>apply_image_transform\<close> with the function that halves the opacity, duration 0 and the
  linear easing leaves the fetched value at 1, immediately and after a tick, where the
  claim expects the halved value \<open>1 / 2\<close>.
\<close>

theorem apply_zero_duration_keeps_source:
  "fetch (root_image_transform
      (apply_image_transform (\<lambda>v. v / 2) 0 linear_easing
         (mixer_init scalar_ops scalar_ops progressive)))
     = (1::real)
   \<and> fst (fetch_and_tick 1 (root_image_transform
      (apply_image_transform (\<lambda>v. v / 2) 0 linear_easing
         (mixer_init scalar_ops scalar_ops progressive))))
     = (1::real)
   \<and> (\<lambda>v. v / 2) (fetch (root_image_transform (mixer_init scalar_ops scalar_ops progressive)))
     = (1 / 2 :: real)"
  by (simp add: fetch_and_tick_def apply_image_transform_def Let_def fetch_def tween_def
      new_tweened_transform_def mixer_init_def default_tweened_transform_def scalar_ops_def
      linear_easing_def)

section \<open>Properties of the mixing passes\<close>

text \<open>How one call, and one loop body, moves the elapsed time of the tweens.\<close>

lemma min_min_add:
  fixes t d a b :: int
  assumes "0 \<le> b"
  shows "min (min (t + a) d + b) d = min (t + a + b) d"
  using assms by (simp add: min_def)

lemma min_tick_twice:
  fixes t d :: int
  shows "min (min (t + 1) d + 1) d = min (t + 2) d"
  by (simp add: min_def)

lemma fetch_and_tick_time [simp]:
  "tw_time (snd (fetch_and_tick num tw)) = min (tw_time tw + num) (tw_duration tw)"
  by (simp add: fetch_and_tick_def Let_def)

lemma fetch_and_tick_duration [simp]:
  "tw_duration (snd (fetch_and_tick num tw)) = tw_duration tw"
  by (simp add: fetch_and_tick_def Let_def)

lemma tick_image_root [simp]:
  "root_image_transform (snd (tick_image ops index num st)) =
     snd (fetch_and_tick num (root_image_transform st))"
  by (simp add: tick_image_def Let_def split_beta)

lemma tick_image_layer [simp]:
  "at_index ops (image_transforms (snd (tick_image ops index num st))) index =
     snd (fetch_and_tick num (at_index ops (image_transforms st) index))"
  by (simp add: tick_image_def Let_def split_beta at_index_def)

lemma tick_image_other [simp]:
  "format_desc_mode (snd (tick_image ops index num st)) = format_desc_mode st"
  "image_mixer (snd (tick_image ops index num st)) = image_mixer st"
  "audio_mixer (snd (tick_image ops index num st)) = audio_mixer st"
  "root_audio_transform (snd (tick_image ops index num st)) = root_audio_transform st"
  "audio_transforms (snd (tick_image ops index num st)) = audio_transforms st"
  by (simp_all add: tick_image_def Let_def split_beta)

lemma tick_audio_root [simp]:
  "root_audio_transform (snd (tick_audio ops index num st)) =
     snd (fetch_and_tick num (root_audio_transform st))"
  by (simp add: tick_audio_def Let_def split_beta)

lemma tick_audio_layer [simp]:
  "at_index ops (audio_transforms (snd (tick_audio ops index num st))) index =
     snd (fetch_and_tick num (at_index ops (audio_transforms st) index))"
  by (simp add: tick_audio_def Let_def split_beta at_index_def)

lemma tick_audio_other [simp]:
  "format_desc_mode (snd (tick_audio ops index num st)) = format_desc_mode st"
  "image_mixer (snd (tick_audio ops index num st)) = image_mixer st"
  "audio_mixer (snd (tick_audio ops index num st)) = audio_mixer st"
  "root_image_transform (snd (tick_audio ops index num st)) = root_image_transform st"
  "image_transforms (snd (tick_audio ops index num st)) = image_transforms st"
  by (simp_all add: tick_audio_def Let_def split_beta)


lemma mix_image_frame_mode [simp]:
  "format_desc_mode (mix_image_frame ops layer_of frame st) = format_desc_mode st"
  by (simp add: mix_image_frame_def Let_def split_beta)

lemma mix_image_frame_root_time:
  "tw_time (root_image_transform (mix_image_frame ops layer_of frame st)) =
     min (tw_time (root_image_transform st) + (if format_desc_mode st = progressive then 1 else 2))
         (tw_duration (root_image_transform st))"
  by (simp add: mix_image_frame_def Let_def split_beta min_tick_twice)

lemma mix_image_frame_root_duration [simp]:
  "tw_duration (root_image_transform (mix_image_frame ops layer_of frame st)) =
     tw_duration (root_image_transform st)"
  by (simp add: mix_image_frame_def Let_def split_beta)


lemma mix_audio_frame_mode [simp]:
  "format_desc_mode (mix_audio_frame ops layer_of frame st) = format_desc_mode st"
  by (simp add: mix_audio_frame_def Let_def split_beta)

lemma mix_audio_frame_root_time:
  "tw_time (root_audio_transform (mix_audio_frame ops layer_of frame st)) =
     min (tw_time (root_audio_transform st) + (if format_desc_mode st = progressive then 1 else 2))
         (tw_duration (root_audio_transform st))"
  by (simp add: mix_audio_frame_def Let_def split_beta)

lemma mix_audio_frame_root_duration [simp]:
  "tw_duration (root_audio_transform (mix_audio_frame ops layer_of frame st)) =
     tw_duration (root_audio_transform st)"
  by (simp add: mix_audio_frame_def Let_def split_beta)


lemma fold_mix_image_frame_root:
  "format_desc_mode (fold (mix_image_frame ops layer_of) frames st) = format_desc_mode st
   \<and> tw_duration (root_image_transform (fold (mix_image_frame ops layer_of) frames st)) =
       tw_duration (root_image_transform st)
   \<and> tw_time (root_image_transform (fold (mix_image_frame ops layer_of) frames st)) =
       (if frames = [] then tw_time (root_image_transform st)
        else min (tw_time (root_image_transform st) +
                    (if format_desc_mode st = progressive then 1 else 2) * int (length frames))
                 (tw_duration (root_image_transform st)))"
proof (induction frames arbitrary: st)
  case Nil
  show ?case by simp
next
  case (Cons f fs)
  let ?st1 = "mix_image_frame ops layer_of f st"
  let ?n = "if format_desc_mode st = progressive then 1 else (2::int)"
  have n0: "0 \<le> ?n * int (length fs)" by simp
  have step: "tw_time (root_image_transform ?st1) =
      min (tw_time (root_image_transform st) + ?n) (tw_duration (root_image_transform st))"
    by (rule mix_image_frame_root_time)
  show ?case
  proof (cases "fs = []")
    case True
    then show ?thesis using step by simp
  next
    case False
    have "tw_time (root_image_transform (fold (mix_image_frame ops layer_of) fs ?st1)) =
        min (tw_time (root_image_transform ?st1) + ?n * int (length fs))
            (tw_duration (root_image_transform st))"
      using Cons.IH [of ?st1] False by simp
    also have "\<dots> = min (tw_time (root_image_transform st) + ?n + ?n * int (length fs))
            (tw_duration (root_image_transform st))"
      unfolding step using min_min_add [OF n0] by blast
    finally show ?thesis using Cons.IH [of ?st1] by (simp add: algebra_simps)
  qed
qed


lemma mix_image_surviving:
  "mix_image ops layer_of frames st = fold (mix_image_frame ops layer_of) (surviving frames) st"
proof -
  have "removeAll EOF (removeAll EMPTY frames) = surviving frames"
    by (induction frames) (auto simp: surviving_def)
  then show ?thesis by (simp add: mix_image_def Let_def)
qed

lemma fold_mix_audio_frame_root:
  "format_desc_mode (fold (mix_audio_frame ops layer_of) frames st) = format_desc_mode st
   \<and> tw_duration (root_audio_transform (fold (mix_audio_frame ops layer_of) frames st)) =
       tw_duration (root_audio_transform st)
   \<and> tw_time (root_audio_transform (fold (mix_audio_frame ops layer_of) frames st)) =
       (if frames = [] then tw_time (root_audio_transform st)
        else min (tw_time (root_audio_transform st) +
                    (if format_desc_mode st = progressive then 1 else 2) * int (length frames))
                 (tw_duration (root_audio_transform st)))"
proof (induction frames arbitrary: st)
  case Nil
  show ?case by simp
next
  case (Cons f fs)
  let ?st1 = "mix_audio_frame ops layer_of f st"
  let ?n = "if format_desc_mode st = progressive then 1 else (2::int)"
  have n0: "0 \<le> ?n * int (length fs)" by simp
  have step: "tw_time (root_audio_transform ?st1) =
      min (tw_time (root_audio_transform st) + ?n) (tw_duration (root_audio_transform st))"
    by (rule mix_audio_frame_root_time)
  show ?case
  proof (cases "fs = []")
    case True
    then show ?thesis using step by simp
  next
    case False
    have "tw_time (root_audio_transform (fold (mix_audio_frame ops layer_of) fs ?st1)) =
        min (tw_time (root_audio_transform ?st1) + ?n * int (length fs))
            (tw_duration (root_audio_transform st))"
      using Cons.IH [of ?st1] False by simp
    also have "\<dots> = min (tw_time (root_audio_transform st) + ?n + ?n * int (length fs))
            (tw_duration (root_audio_transform st))"
      unfolding step using min_min_add [OF n0] by blast
    finally show ?thesis using Cons.IH [of ?st1] by (simp add: algebra_simps)
  qed
qed

text \<open>
  Claim C2, evaluated on the code. A tick is sent the frames \<open>EMPTY\<close> and \<open>EOF\<close>, in
  progressive mode, while the root audio transform is a tween to volume 0 over 10 ticks.
  The image pass accepts nothing and leaves the root image tween alone; the audio pass,
  which is handed the frames as they were sent, accepts a child of \<open>EMPTY\<close> and a child
  of \<open>EOF\<close> and advances the root audio tween by two steps.
\<close>

theorem audio_pass_takes_empty_and_eof:
  "audio_mixer (send scalar_ops scalar_ops (\<lambda>frame. 0) [EMPTY, EOF]
      (set_audio_transform 0 10 linear_easing
         (mixer_init scalar_ops scalar_ops progressive :: (real, real) mixer))) =
     [Child EMPTY (9000001 / 10000001), Child EOF (8000001 / 10000001)]
   \<and> tw_time (root_audio_transform (send scalar_ops scalar_ops (\<lambda>frame. 0) [EMPTY, EOF]
      (set_audio_transform 0 10 linear_easing
         (mixer_init scalar_ops scalar_ops progressive :: (real, real) mixer)))) = 2
   \<and> image_mixer (send scalar_ops scalar_ops (\<lambda>frame. 0) [EMPTY, EOF]
      (set_audio_transform 0 10 linear_easing
         (mixer_init scalar_ops scalar_ops progressive :: (real, real) mixer))) = []
   \<and> tw_time (root_image_transform (send scalar_ops scalar_ops (\<lambda>frame. 0) [EMPTY, EOF]
      (set_audio_transform 0 10 linear_easing
         (mixer_init scalar_ops scalar_ops progressive :: (real, real) mixer)))) = 0"
  by (simp add: send_def mix_image_def mix_audio_def mix_audio_frame_def tick_audio_def
      set_audio_transform_def Let_def mixer_init_def new_tweened_transform_def
      fetch_and_tick_def fetch_def tween_def at_index_def default_tweened_transform_def
      scalar_ops_def linear_easing_def)






text \<open>
  Claim C10, as the code has it. In a tick the root image tween is ticked for every
  surviving frame: with \<open>k\<close> of them its elapsed time ends at
  \<open>min (elapsed + n * k) duration\<close>, where \<open>n\<close> is 1 in progressive mode and 2 otherwise (and
  it is untouched when \<open>k = 0\<close>). The root audio tween ends at the same expression for the
  number of frames handed to the audio pass. The advance grows with the number of frames
  and stops at the duration. The two root tweens are taken with an elapsed time and a
  duration of at most 2147483645, so that no \<open>time_ + num\<close> of the tick leaves the range
  of the 32-bit \<open>int\<close> of the code.
\<close>

theorem root_tween_advance_per_tick:
  assumes "tw_time (root_image_transform st) \<le> 2147483645"
    and "tw_duration (root_image_transform st) \<le> 2147483645"
    and "tw_time (root_audio_transform st) \<le> 2147483645"
    and "tw_duration (root_audio_transform st) \<le> 2147483645"
  shows "tw_time (root_image_transform (mix_image iops layer_of frames st)) =
     (if surviving frames = [] then tw_time (root_image_transform st)
      else min (tw_time (root_image_transform st) +
                  ticks_per_frame (format_desc_mode st) * int (length (surviving frames)))
               (tw_duration (root_image_transform st)))
   \<and> tw_time (root_audio_transform (mix_audio aops layer_of frames st)) =
     (if frames = [] then tw_time (root_audio_transform st)
      else min (tw_time (root_audio_transform st) +
                  ticks_per_frame (format_desc_mode st) * int (length frames))
               (tw_duration (root_audio_transform st)))"
  unfolding ticks_per_frame_def mix_image_surviving mix_audio_def
  using fold_mix_image_frame_root [of iops layer_of "surviving frames" st]
    fold_mix_audio_frame_root [of aops layer_of frames st]
  by simp

text \<open>
  An instance: with both root tweens just set to 10 ticks, a progressive tick with three
  surviving frames moves the root image tween from elapsed time 0 to 3, and the audio
  pass, handed all four frames, moves the root audio tween to 4.
\<close>

theorem root_tween_advance_per_tick_witness:
  "tw_time (root_image_transform
      (set_audio_transform 0 10 linear_easing (set_image_transform 0 10 linear_easing
         (mixer_init scalar_ops scalar_ops progressive :: (real, real) mixer)))) \<le> 2147483645
   \<and> tw_duration (root_image_transform
      (set_audio_transform 0 10 linear_easing (set_image_transform 0 10 linear_easing
         (mixer_init scalar_ops scalar_ops progressive :: (real, real) mixer)))) \<le> 2147483645
   \<and> tw_time (root_audio_transform
      (set_audio_transform 0 10 linear_easing (set_image_transform 0 10 linear_easing
         (mixer_init scalar_ops scalar_ops progressive :: (real, real) mixer)))) \<le> 2147483645
   \<and> tw_duration (root_audio_transform
      (set_audio_transform 0 10 linear_easing (set_image_transform 0 10 linear_easing
         (mixer_init scalar_ops scalar_ops progressive :: (real, real) mixer)))) \<le> 2147483645
   \<and> tw_time (root_image_transform
      (mix_image scalar_ops (\<lambda>frame. 0) [Frame 1, EMPTY, Frame 2, Frame 3]
         (set_audio_transform 0 10 linear_easing (set_image_transform 0 10 linear_easing
            (mixer_init scalar_ops scalar_ops progressive :: (real, real) mixer))))) = 3
   \<and> tw_time (root_audio_transform
      (mix_audio scalar_ops (\<lambda>frame. 0) [Frame 1, EMPTY, Frame 2, Frame 3]
         (set_audio_transform 0 10 linear_easing (set_image_transform 0 10 linear_easing
            (mixer_init scalar_ops scalar_ops progressive :: (real, real) mixer))))) = 4"
proof -
  let ?st = "set_audio_transform 0 10 linear_easing (set_image_transform 0 10 linear_easing
         (mixer_init scalar_ops scalar_ops progressive :: (real, real) mixer))"
  have h1: "tw_time (root_image_transform ?st) \<le> 2147483645"
    and h2: "tw_duration (root_image_transform ?st) \<le> 2147483645"
    and h3: "tw_time (root_audio_transform ?st) \<le> 2147483645"
    and h4: "tw_duration (root_audio_transform ?st) \<le> 2147483645"
    by (simp_all add: set_image_transform_def set_audio_transform_def Let_def
        new_tweened_transform_def mixer_init_def)
  show ?thesis
    using h1 h2 h3 h4
      root_tween_advance_per_tick [OF h1 h2 h3 h4, of scalar_ops "\<lambda>frame. 0"
        "[Frame 1, EMPTY, Frame 2, Frame 3]" scalar_ops]
    by (simp add: ticks_per_frame_def surviving_def set_image_transform_def
        set_audio_transform_def Let_def new_tweened_transform_def mixer_init_def)
qed

text \<open>
  The claim C10 as it is written fails once the tween is near its end: in interlaced mode,
  with a root image tween of 2 ticks and three surviving frames, the elapsed time goes
  from 0 to 2, not to \<open>2 * 3\<close>.
\<close>

theorem root_tween_advance_per_tick_counterexample:
  "tw_time (root_image_transform
      (mix_image scalar_ops (\<lambda>frame. 0) [Frame 1, EMPTY, Frame 2, Frame 3]
         (set_image_transform 0 2 linear_easing
            (mixer_init scalar_ops scalar_ops upper :: (real, real) mixer)))) = 2
   \<and> tw_time (root_image_transform
      (mix_image scalar_ops (\<lambda>frame. 0) [Frame 1, EMPTY, Frame 2, Frame 3]
         (set_image_transform 0 2 linear_easing
            (mixer_init scalar_ops scalar_ops upper :: (real, real) mixer))))
     \<noteq> tw_time (root_image_transform
         (set_image_transform 0 2 linear_easing
            (mixer_init scalar_ops scalar_ops upper :: (real, real) mixer)))
       + 2 * int (length (surviving [Frame 1, EMPTY, Frame 2, Frame 3]))"
  by (simp add: mix_image_surviving surviving_def mix_image_frame_root_time
      set_image_transform_def Let_def new_tweened_transform_def mixer_init_def)

section \<open>Properties of the demux pump\<close>

text \<open>
  Claim C5. \<open>is_eof\<close> holds exactly when the executor is not running and both packet
  queues hold no packet.
\<close>

theorem is_eof_iff:
  "is_eof st \<longleftrightarrow>
     \<not> executor_is_running st
     \<and> length (video_packet_buffer st) = 0 \<and> length (audio_packet_buffer st) = 0"
  by (simp add: is_eof_def)

text \<open>The digit count is the floor of the decimal logarithm.\<close>

lemma ilog10_bounds: "0 < n \<Longrightarrow> 10 ^ ilog10 n \<le> n \<and> n < 10 ^ Suc (ilog10 n)"
proof (induction n rule: ilog10.induct)
  case (1 n)
  show ?case
  proof (cases "n < 10")
    case True
    with "1.prems" show ?thesis by (simp add: ilog10.simps [of n])
  next
    case False
    then have pos: "0 < n div 10" by simp
    from "1.IH" [OF False pos]
    have lo: "10 ^ ilog10 (n div 10) \<le> n div 10" and hi: "n div 10 < 10 ^ Suc (ilog10 (n div 10))"
      by simp_all
    have e: "ilog10 n = Suc (ilog10 (n div 10))"
      using False by (simp add: ilog10.simps [of n])
    have "10 * 10 ^ ilog10 (n div 10) \<le> 10 * (n div 10)" using lo by simp
    also have "\<dots> \<le> n" by simp
    finally have a: "10 ^ ilog10 n \<le> n" by (simp add: e)
    have "n div 10 + 1 \<le> 10 ^ Suc (ilog10 (n div 10))" using hi by simp
    then have "10 * (n div 10 + 1) \<le> 10 * 10 ^ Suc (ilog10 (n div 10))"
      by (rule mult_le_mono2)
    moreover have "n < 10 * (n div 10 + 1)" by presburger
    ultimately have b: "n < 10 ^ Suc (ilog10 n)" by (simp add: e)
    from a b show ?thesis by simp
  qed
qed

lemma ilog10_floor_log: "0 < n \<Longrightarrow> \<lfloor>log 10 (real n)\<rfloor> = int (ilog10 n)"
  using ilog10_bounds [of n] floor_log_nat_eq_if [of 10 "ilog10 n" n] by simp


lemma power_of_ten_iff: "power_of_ten den \<longleftrightarrow> (\<exists>k. den = 10 ^ k)"
proof
  assume "power_of_ten den"
  then show "\<exists>k. den = 10 ^ k" unfolding power_of_ten_def by blast
next
  assume "\<exists>k. den = 10 ^ k"
  then obtain k :: nat where k: "den = 10 ^ k" by blast
  have "\<lfloor>log 10 (real (10 ^ k))\<rfloor> = int k" by simp
  then have il: "ilog10 (10 ^ k) = k"
    using ilog10_floor_log [of "10 ^ k"] by simp
  have n: "nat den = 10 ^ k" using k by (simp add: nat_power_eq)
  have "ilog10 (nat den) = k" unfolding n by (rule il)
  then show "power_of_ten den" using k by (simp add: power_of_ten_def)
qed








text \<open>More time bases: 1/30000, 1/25, 1001/30000, 1/5 and 1/9999999.\<close>

lemma fix_time_base_examples:
  "fix_time_base (Some \<lparr>time_base_num = 1, time_base_den = 30000\<rparr>) =
     Inr (Some \<lparr>time_base_num = 1000, time_base_den = 30000\<rparr>)"
  "fix_time_base (Some \<lparr>time_base_num = 1, time_base_den = 25\<rparr>) =
     Inr (Some \<lparr>time_base_num = 1, time_base_den = 25\<rparr>)"
  "fix_time_base (Some \<lparr>time_base_num = 1001, time_base_den = 30000\<rparr>) =
     Inr (Some \<lparr>time_base_num = 1001, time_base_den = 30000\<rparr>)"
  "fix_time_base (Some \<lparr>time_base_num = 1, time_base_den = 5\<rparr>) =
     Inr (Some \<lparr>time_base_num = 0, time_base_den = 5\<rparr>)"
  "fix_time_base (Some \<lparr>time_base_num = 1, time_base_den = 9999999\<rparr>) =
     Inr (Some \<lparr>time_base_num = 1000000, time_base_den = 9999999\<rparr>)"
  by (simp_all add: fix_time_base_def log10_int_def float_log10_rounds_up_def pow10_int_def
      ilog10.simps)

lemma seek_frame_result:
  "fst (seek_frame lib seek_target flags st) =
     (0 \<le> av_seek_frame lib (max (video_s_index st) (audio_s_index st))
            (if 0 \<le> max (video_s_index st) (audio_s_index st)
             then av_rescale_q lib (seek_target * AV_TIME_BASE)
                    (max (video_s_index st) (audio_s_index st))
             else seek_target * AV_TIME_BASE)
            flags)"
  by (simp add: seek_frame_def Let_def)

text \<open>
  Claim C7. When the container read fails, \<open>read_file\<close> stops the executor if looping is
  off, without seeking. If looping is on it calls \<open>av_seek_frame\<close> once, on the stream
  with the greater of the two indices, for the target 0 (rescaled to that stream's time
  base) with the flag \<open>AVSEEK_FLAG_BACKWARD\<close>; when the seek succeeds the tag \<open>seek\<close> is
  emitted and the executor keeps running, and when it fails the executor is stopped and
  no tag is emitted. In every case the next iteration is handed to the executor and the
  queues are untouched. \<open>seek_frame\<close> returns the boolean that says whether the status of
  \<open>av_seek_frame\<close> was non-negative; it has no other outcome.
\<close>

theorem read_failure_step:
  "(let st' = read_file lib None st;
        stream_index = max (video_s_index st) (audio_s_index st);
        target = (if 0 \<le> stream_index then av_rescale_q lib 0 stream_index else 0);
        seek_ok = (0 \<le> av_seek_frame lib stream_index target AVSEEK_FLAG_BACKWARD)
    in executor_is_running st' = (executor_is_running st \<and> loop st \<and> seek_ok)
     \<and> seek_calls st' =
         (if loop st then seek_calls st @ [(stream_index, target, AVSEEK_FLAG_BACKWARD)]
          else seek_calls st)
     \<and> graph_tags st' =
         (if loop st \<and> seek_ok then graph_tags st @ [''seek''] else graph_tags st)
     \<and> executor_tasks st' = executor_tasks st + 1
     \<and> video_packet_buffer st' = video_packet_buffer st
     \<and> audio_packet_buffer st' = audio_packet_buffer st
     \<and> fst (seek_frame lib 0 AVSEEK_FLAG_BACKWARD st) = seek_ok)"
  by (simp add: read_file_def seek_frame_def Let_def split_beta)

text \<open>
  Three runs on a pump with the video stream at index 0 and the audio stream at index 1:
  looping with a seek that succeeds (the pump keeps running, the tag is emitted, the seek
  was on stream 1 for the target 0 backward), looping with a seek that fails (the pump
  stops, no tag), and not looping (the pump stops, no seek).
\<close>

theorem read_failure_step_witness:
  "executor_is_running (read_file \<lparr>av_rescale_q = (\<lambda>a index. a), av_seek_frame = (\<lambda>index t flags. 0)\<rparr> None
      \<lparr>loop = True, video_s_index = 0, audio_s_index = 1, video_packet_buffer = [],
       audio_packet_buffer = [], executor_is_running = True, executor_tasks = 0,
       cond_notifications = 0, graph_tags = [], seek_calls = []\<rparr>)
   \<and> graph_tags (read_file \<lparr>av_rescale_q = (\<lambda>a index. a), av_seek_frame = (\<lambda>index t flags. 0)\<rparr> None
      \<lparr>loop = True, video_s_index = 0, audio_s_index = 1, video_packet_buffer = [],
       audio_packet_buffer = [], executor_is_running = True, executor_tasks = 0,
       cond_notifications = 0, graph_tags = [], seek_calls = []\<rparr>) = [''seek'']
   \<and> seek_calls (read_file \<lparr>av_rescale_q = (\<lambda>a index. a), av_seek_frame = (\<lambda>index t flags. 0)\<rparr> None
      \<lparr>loop = True, video_s_index = 0, audio_s_index = 1, video_packet_buffer = [],
       audio_packet_buffer = [], executor_is_running = True, executor_tasks = 0,
       cond_notifications = 0, graph_tags = [], seek_calls = []\<rparr>) = [(1, 0, 1)]
   \<and> \<not> executor_is_running (read_file \<lparr>av_rescale_q = (\<lambda>a index. a), av_seek_frame = (\<lambda>index t flags. - 1)\<rparr> None
      \<lparr>loop = True, video_s_index = 0, audio_s_index = 1, video_packet_buffer = [],
       audio_packet_buffer = [], executor_is_running = True, executor_tasks = 0,
       cond_notifications = 0, graph_tags = [], seek_calls = []\<rparr>)
   \<and> graph_tags (read_file \<lparr>av_rescale_q = (\<lambda>a index. a), av_seek_frame = (\<lambda>index t flags. - 1)\<rparr> None
      \<lparr>loop = True, video_s_index = 0, audio_s_index = 1, video_packet_buffer = [],
       audio_packet_buffer = [], executor_is_running = True, executor_tasks = 0,
       cond_notifications = 0, graph_tags = [], seek_calls = []\<rparr>) = []
   \<and> \<not> executor_is_running (read_file \<lparr>av_rescale_q = (\<lambda>a index. a), av_seek_frame = (\<lambda>index t flags. 0)\<rparr> None
      \<lparr>loop = False, video_s_index = 0, audio_s_index = 1, video_packet_buffer = [],
       audio_packet_buffer = [], executor_is_running = True, executor_tasks = 0,
       cond_notifications = 0, graph_tags = [], seek_calls = []\<rparr>)
   \<and> seek_calls (read_file \<lparr>av_rescale_q = (\<lambda>a index. a), av_seek_frame = (\<lambda>index t flags. 0)\<rparr> None
      \<lparr>loop = False, video_s_index = 0, audio_s_index = 1, video_packet_buffer = [],
       audio_packet_buffer = [], executor_is_running = True, executor_tasks = 0,
       cond_notifications = 0, graph_tags = [], seek_calls = []\<rparr>) = []"
  using read_failure_step [of "\<lparr>av_rescale_q = (\<lambda>a index. a), av_seek_frame = (\<lambda>index t flags. 0)\<rparr>"
      "\<lparr>loop = True, video_s_index = 0, audio_s_index = 1, video_packet_buffer = [],
       audio_packet_buffer = [], executor_is_running = True, executor_tasks = 0,
       cond_notifications = 0, graph_tags = [], seek_calls = []\<rparr>"]
    read_failure_step [of "\<lparr>av_rescale_q = (\<lambda>a index. a), av_seek_frame = (\<lambda>index t flags. - 1)\<rparr>"
      "\<lparr>loop = True, video_s_index = 0, audio_s_index = 1, video_packet_buffer = [],
       audio_packet_buffer = [], executor_is_running = True, executor_tasks = 0,
       cond_notifications = 0, graph_tags = [], seek_calls = []\<rparr>"]
    read_failure_step [of "\<lparr>av_rescale_q = (\<lambda>a index. a), av_seek_frame = (\<lambda>index t flags. 0)\<rparr>"
      "\<lparr>loop = False, video_s_index = 0, audio_s_index = 1, video_packet_buffer = [],
       audio_packet_buffer = [], executor_is_running = True, executor_tasks = 0,
       cond_notifications = 0, graph_tags = [], seek_calls = []\<rparr>"]
  by (simp add: Let_def AVSEEK_FLAG_BACKWARD_def)

text \<open>
  Claim C9. \<open>get_video_packet\<close> returns the front packet of the video queue and removes
  it, or returns an empty buffer and removes nothing when the queue is empty; it never
  touches the audio queue, and it calls \<open>notify_all\<close> on the condition variable once.
  \<open>get_audio_packet\<close> does the same on the audio queue.
\<close>

theorem get_packet_pops_one:
  "fst (get_video_packet st) =
     (if video_packet_buffer st = [] then [] else hd (video_packet_buffer st))
   \<and> video_packet_buffer (snd (get_video_packet st)) = drop 1 (video_packet_buffer st)
   \<and> audio_packet_buffer (snd (get_video_packet st)) = audio_packet_buffer st
   \<and> cond_notifications (snd (get_video_packet st)) = cond_notifications st + 1
   \<and> fst (get_audio_packet st) =
     (if audio_packet_buffer st = [] then [] else hd (audio_packet_buffer st))
   \<and> audio_packet_buffer (snd (get_audio_packet st)) = drop 1 (audio_packet_buffer st)
   \<and> video_packet_buffer (snd (get_audio_packet st)) = video_packet_buffer st
   \<and> cond_notifications (snd (get_audio_packet st)) = cond_notifications st + 1"
  by (simp add: get_video_packet_def get_audio_packet_def get_packet_def Let_def
      split: list.split)

text \<open>
  An instance: with two packets in the video queue and none in the audio queue,
  \<open>get_video_packet\<close> returns the first packet and leaves the second, and
  \<open>get_audio_packet\<close> returns an empty buffer and notifies once.
\<close>

theorem get_packet_pops_one_witness:
  "fst (get_video_packet
      \<lparr>loop = False, video_s_index = 0, audio_s_index = 1, video_packet_buffer = [[1, 2], [3]],
       audio_packet_buffer = [], executor_is_running = True, executor_tasks = 1,
       cond_notifications = 0, graph_tags = [], seek_calls = []\<rparr>) = [1, 2]
   \<and> video_packet_buffer (snd (get_video_packet
      \<lparr>loop = False, video_s_index = 0, audio_s_index = 1, video_packet_buffer = [[1, 2], [3]],
       audio_packet_buffer = [], executor_is_running = True, executor_tasks = 1,
       cond_notifications = 0, graph_tags = [], seek_calls = []\<rparr>)) = [[3]]
   \<and> fst (get_audio_packet
      \<lparr>loop = False, video_s_index = 0, audio_s_index = 1, video_packet_buffer = [[1, 2], [3]],
       audio_packet_buffer = [], executor_is_running = True, executor_tasks = 1,
       cond_notifications = 0, graph_tags = [], seek_calls = []\<rparr>) = []
   \<and> cond_notifications (snd (get_audio_packet
      \<lparr>loop = False, video_s_index = 0, audio_s_index = 1, video_packet_buffer = [[1, 2], [3]],
       audio_packet_buffer = [], executor_is_running = True, executor_tasks = 1,
       cond_notifications = 0, graph_tags = [], seek_calls = []\<rparr>)) = 1"
  using get_packet_pops_one [of
      "\<lparr>loop = False, video_s_index = 0, audio_s_index = 1, video_packet_buffer = [[1, 2], [3]],
       audio_packet_buffer = [], executor_is_running = True, executor_tasks = 1,
       cond_notifications = 0, graph_tags = [], seek_calls = []\<rparr>"]
  by simp

end
